theory Spec2Isabelle
  imports Complex_Main
begin

section \<open>Python values used by the NEO code base\<close>

text \<open>
  Exceptions of the Python code are values of the type \<open>error\<close>; a function that may
  raise returns \<open>error + 'a\<close> with \<open>Inl\<close> for the raised exception.
\<close>

datatype error =
    KeyError
  | IndexError
  | TypeError
  | ValueError
  | AttributeError
  | UnsupportedCriterionError

text \<open>
  A Python \<open>float\<close>, as far as comparison sees it: not-a-number, the two infinities, or
  a finite value.  Every finite binary64 value is a rational number, so \<open>Fin q\<close> ranges
  over (a superset of) the finite floats; \<open>Fin 0\<close> stands for both zeros, which compare
  equal.
\<close>

datatype pyfloat = NaN | NegInf | Fin rat | PosInf

fun float_le :: "pyfloat \<Rightarrow> pyfloat \<Rightarrow> bool" where
  "float_le NaN y = False"
| "float_le NegInf y = (y \<noteq> NaN)"
| "float_le (Fin a) y = (case y of NaN \<Rightarrow> False | NegInf \<Rightarrow> False | Fin b \<Rightarrow> a \<le> b | PosInf \<Rightarrow> True)"
| "float_le PosInf y = (y = PosInf)"

definition float_ge :: "pyfloat \<Rightarrow> pyfloat \<Rightarrow> bool" where
  "float_ge x y = float_le y x"

definition float_eq :: "pyfloat \<Rightarrow> pyfloat \<Rightarrow> bool" where
  "float_eq x y = (x \<noteq> NaN \<and> y \<noteq> NaN \<and> x = y)"

text \<open>A \<open>datetime.date\<close> orders by year, then month, then day.\<close>

record pydate =
  year :: nat
  month :: nat
  day :: nat

definition date_le :: "pydate \<Rightarrow> pydate \<Rightarrow> bool" where
  "date_le a b =
     (year a < year b \<or>
      (year a = year b \<and> (month a < month b \<or> (month a = month b \<and> day a \<le> day b))))"

definition date_ge :: "pydate \<Rightarrow> pydate \<Rightarrow> bool" where
  "date_ge a b = date_le b a"

text \<open>A \<open>datetime.datetime\<close> at minute precision; \<open>dt_date\<close> is its \<open>.date()\<close>.\<close>

record pydatetime =
  dt_date :: pydate
  dt_hour :: nat
  dt_minute :: nat

section \<open>models.py: the two record types, held in a heap\<close>

text \<open>
  Objects are shared and mutated in place by the database constructor, and the two
  classes refer to each other, so both live in a heap and are named by references.
\<close>

type_synonym neo_ref = nat
type_synonym ca_ref = nat

record NearEarthObject =
  designation :: "string option"
  name :: "string option"
  diameter :: pyfloat
  hazardous :: bool
  approaches :: "ca_ref list"

text \<open>\<open>ca_designation\<close> is the private attribute \<open>_designation\<close>.\<close>

record CloseApproach =
  ca_designation :: "string option"
  time :: pydatetime
  distance :: pyfloat
  velocity :: pyfloat
  neo :: "neo_ref option"

record heap =
  neo_at :: "neo_ref \<Rightarrow> NearEarthObject"
  ca_at :: "ca_ref \<Rightarrow> CloseApproach"

section \<open>The built-in \<open>float\<close>\<close>

text \<open>
  The value of a field of a row: a string, or \<open>None\<close> (what \<open>csv.DictReader\<close> puts
  for a column that a short row lacks, and what a JSON \<open>null\<close> decodes to).  A string is
  the list of the bytes of its UTF-8 encoding, so ASCII text is the list of its
  characters.
\<close>

datatype pyfield = PyNone | PyStr string

definition ascii :: "string \<Rightarrow> bool" where
  "ascii s = list_all (\<lambda>c. (of_char c :: nat) < 128) s"

text \<open>
  \<open>float(s)\<close> for an ASCII string: surrounding whitespace (the space and the
  characters 9 to 13) is dropped, then an optional
  sign is followed by \<open>nan\<close>, \<open>inf\<close> or \<open>infinity\<close> in any letter case, or by a decimal
  numeral: digits with an optional point and an optional exponent, where single
  underscores may stand between digits.  Anything else raises \<open>ValueError\<close>.
  The numeral's exact value is handed to \<open>rnd\<close>, the rounding to the nearest binary64
  value (which overflows to an infinity); the claims here do not depend on it.
\<close>

definition is_space :: "char \<Rightarrow> bool" where
  "is_space c =
     (let n = (of_char c :: nat) in (9 \<le> n \<and> n \<le> 13) \<or> n = 32)"

definition strip :: "string \<Rightarrow> string" where
  "strip s = rev (dropWhile is_space (rev (dropWhile is_space s)))"

text \<open>
  \<open>is_word body w\<close>: \<open>body.lower() == w\<close> for a lower-case word \<open>w\<close>, compared by
  character codes.
\<close>

definition lower_ord :: "char \<Rightarrow> nat" where
  "lower_ord c = (let n = (of_char c :: nat) in if 65 \<le> n \<and> n \<le> 90 then n + 32 else n)"

definition is_word :: "string \<Rightarrow> string \<Rightarrow> bool" where
  "is_word body w = (map lower_ord body = map of_char w)"

definition is_digit :: "char \<Rightarrow> bool" where
  "is_digit c = (let n = (of_char c :: nat) in 48 \<le> n \<and> n \<le> 57)"

definition digit_val :: "char \<Rightarrow> nat" where
  "digit_val c = of_char c - 48"

text \<open>\<open>(["_"] digit)*\<close>: the digits read and the text left.\<close>

fun digits_tail :: "string \<Rightarrow> nat list \<times> string" where
  "digits_tail [] = ([], [])"
| "digits_tail [c] = (if is_digit c then ([digit_val c], []) else ([], [c]))"
| "digits_tail (c # d # cs) =
     (if is_digit c
      then (case digits_tail (d # cs) of (ds, r) \<Rightarrow> (digit_val c # ds, r))
      else if c = CHR ''_'' \<and> is_digit d
      then (case digits_tail cs of (ds, r) \<Rightarrow> (digit_val d # ds, r))
      else ([], c # d # cs))"

text \<open>\<open>digitpart ::= digit (["_"] digit)*\<close>\<close>

definition digitpart :: "string \<Rightarrow> (nat list \<times> string) option" where
  "digitpart s =
     (case s of
        [] \<Rightarrow> None
      | c # cs \<Rightarrow>
          if is_digit c
          then (case digits_tail cs of (ds, r) \<Rightarrow> Some (digit_val c # ds, r))
          else None)"

text \<open>
  \<open>number ::= [digitpart] "." digitpart | digitpart ["."]\<close>: the digits before the
  point, the digits after it, and the text left.
\<close>

definition number :: "string \<Rightarrow> (nat list \<times> nat list \<times> string) option" where
  "number s =
     (case digitpart s of
        Some (ip, r) \<Rightarrow>
          (case r of
             c # r' \<Rightarrow>
               if c = CHR ''.''
               then (case digitpart r' of
                       Some (fp, r'') \<Rightarrow> Some (ip, fp, r'')
                     | None \<Rightarrow> Some (ip, [], r'))
               else Some (ip, [], r)
           | [] \<Rightarrow> Some (ip, [], []))
      | None \<Rightarrow>
          (case s of
             c # r' \<Rightarrow>
               if c = CHR ''.''
               then (case digitpart r' of
                       Some (fp, r'') \<Rightarrow> Some ([], fp, r'')
                     | None \<Rightarrow> None)
               else None
           | [] \<Rightarrow> None))"

definition sign_of :: "string \<Rightarrow> bool \<times> string" where
  "sign_of s =
     (case s of
        [] \<Rightarrow> (False, [])
      | c # r \<Rightarrow>
          if c = CHR ''-'' then (True, r)
          else if c = CHR ''+'' then (False, r)
          else (False, s))"

definition nat_of_digits :: "nat list \<Rightarrow> nat" where
  "nat_of_digits ds = foldl (\<lambda>n d. 10 * n + d) 0 ds"

text \<open>\<open>exponent ::= ("e" | "E") [sign] digitpart\<close>; no exponent is the exponent 0.\<close>

definition exponent :: "string \<Rightarrow> (int \<times> string) option" where
  "exponent s =
     (case s of
        [] \<Rightarrow> Some (0, [])
      | c # r \<Rightarrow>
          if c = CHR ''e'' \<or> c = CHR ''E''
          then (case sign_of r of
                  (neg, r') \<Rightarrow>
                    (case digitpart r' of
                       None \<Rightarrow> None
                     | Some (ds, r'') \<Rightarrow>
                         Some (if neg then - int (nat_of_digits ds) else int (nat_of_digits ds), r'')))
          else Some (0, s))"

definition scale10 :: "rat \<Rightarrow> int \<Rightarrow> rat" where
  "scale10 q k = (if 0 \<le> k then q * 10 ^ nat k else q / 10 ^ nat (- k))"

definition floatnumber :: "string \<Rightarrow> rat option" where
  "floatnumber s =
     (case number s of
        None \<Rightarrow> None
      | Some (ip, fp, r) \<Rightarrow>
          (case exponent r of
             None \<Rightarrow> None
           | Some (e, r') \<Rightarrow>
               if r' = []
               then Some (scale10 (of_nat (nat_of_digits (ip @ fp))) (e - int (length fp)))
               else None))"

definition float_ascii :: "(rat \<Rightarrow> pyfloat) \<Rightarrow> string \<Rightarrow> error + pyfloat" where
  "float_ascii rnd str =
     (case sign_of (strip str) of
        (neg, body) \<Rightarrow>
          if is_word body ''nan'' then Inr NaN
          else if is_word body ''inf'' \<or> is_word body ''infinity''
          then Inr (if neg then NegInf else PosInf)
          else (case floatnumber body of
                  None \<Rightarrow> Inl ValueError
                | Some q \<Rightarrow> Inr (rnd (if neg then - q else q))))"

text \<open>
  \<open>float(s)\<close> for any string.  Text that is not ASCII goes through the Unicode tables
  of whitespace and decimal digits first (a no-break space is whitespace, an
  Arabic-Indic digit is a digit); these tables are not modelled, and \<open>uni\<close> stands for
  \<open>float\<close> on such text.
\<close>

definition float_str ::
  "(rat \<Rightarrow> pyfloat) \<Rightarrow> (string \<Rightarrow> error + pyfloat) \<Rightarrow> string \<Rightarrow> error + pyfloat" where
  "float_str rnd uni s = (if ascii s then float_ascii rnd s else uni s)"

text \<open>\<open>float(x)\<close> for the value of a field: \<open>float(None)\<close> raises \<open>TypeError\<close>.\<close>

definition py_float ::
  "(rat \<Rightarrow> pyfloat) \<Rightarrow> (string \<Rightarrow> error + pyfloat) \<Rightarrow> pyfield \<Rightarrow> error + pyfloat" where
  "py_float rnd uni x =
     (case x of
        PyNone \<Rightarrow> Inl TypeError
      | PyStr s \<Rightarrow> float_str rnd uni s)"

section \<open>models.py: the constructors\<close>

text \<open>
  Both constructors take the keyword arguments as a dictionary from field names to
  field values, as the CSV and JSON readers supply them.  \<open>dict_get\<close> is
  \<open>info.get(key, default)\<close>, and \<open>opt_str\<close> is a field value as the records hold it
  (\<open>None\<close> for Python's \<open>None\<close>).
\<close>

definition dict_get :: "(string \<rightharpoonup> pyfield) \<Rightarrow> string \<Rightarrow> pyfield \<Rightarrow> pyfield" where
  "dict_get info key dflt = (case info key of None \<Rightarrow> dflt | Some x \<Rightarrow> x)"

fun opt_str :: "pyfield \<Rightarrow> string option" where
  "opt_str PyNone = None"
| "opt_str (PyStr s) = Some s"

definition NearEarthObject_init ::
  "(rat \<Rightarrow> pyfloat) \<Rightarrow> (string \<Rightarrow> error + pyfloat) \<Rightarrow> (string \<rightharpoonup> pyfield) \<Rightarrow>
   error + NearEarthObject" where
  "NearEarthObject_init rnd uni info =
     (let designation0 = dict_get info ''pdes'' PyNone;
          name0 = dict_get info ''name'' PyNone;
          diameter0 = dict_get info ''diameter'' (PyStr ''nan'');
          name1 = (if name0 = PyStr [] then PyNone else name0);
          diameter1 = (if diameter0 = PyStr [] then PyStr ''nan'' else diameter0)
      in case py_float rnd uni diameter1 of
           Inl e \<Rightarrow> Inl e
         | Inr d \<Rightarrow>
             Inr \<lparr>designation = opt_str designation0, name = opt_str name1, diameter = d,
                  hazardous = (info ''pha'' = Some (PyStr ''Y'')), approaches = []\<rparr>)"

text \<open>
  \<open>cd_to_datetime\<close> lives in the module \<open>helpers\<close>, whose source is not at hand; it is a
  parameter here, from the \<open>cd\<close> field (or \<open>None\<close>) to a datetime or an exception.
\<close>

definition CloseApproach_init ::
  "(rat \<Rightarrow> pyfloat) \<Rightarrow> (string \<Rightarrow> error + pyfloat) \<Rightarrow>
   (string option \<Rightarrow> error + pydatetime) \<Rightarrow> (string \<rightharpoonup> pyfield) \<Rightarrow>
   error + CloseApproach" where
  "CloseApproach_init rnd uni cd_to_datetime info =
     (let designation0 = dict_get info ''des'' PyNone
      in case cd_to_datetime (opt_str (dict_get info ''cd'' PyNone)) of
           Inl e \<Rightarrow> Inl e
         | Inr t \<Rightarrow>
             (case py_float rnd uni (dict_get info ''dist'' (PyStr ''nan'')) of
                Inl e \<Rightarrow> Inl e
              | Inr d \<Rightarrow>
                  (case py_float rnd uni (dict_get info ''v_rel'' (PyStr ''nan'')) of
                     Inl e \<Rightarrow> Inl e
                   | Inr v \<Rightarrow>
                       Inr \<lparr>ca_designation = opt_str designation0, time = t, distance = d,
                            velocity = v, neo = None\<rparr>)))"

section \<open>filters.py: limit\<close>

text \<open>
  \<open>itertools.islice(iterator, stop)\<close>.  The object it returns holds the underlying
  iterator (\<open>source\<close>: the items it has yet to produce) and the number of items still
  allowed (\<open>remaining\<close>, \<open>None\<close> for no bound).  The constructor raises \<open>ValueError\<close>
  unless \<open>stop\<close> is \<open>None\<close> or an integer with \<open>0 \<le> stop \<le> sys.maxsize\<close>;
  \<open>maxsize\<close> is the platform's \<open>sys.maxsize\<close>.
\<close>

record 'a islice_obj =
  source :: "'a list"
  remaining :: "nat option"

definition islice :: "int \<Rightarrow> 'a list \<Rightarrow> int option \<Rightarrow> error + 'a islice_obj" where
  "islice maxsize iterator stop =
     (case stop of
        None \<Rightarrow> Inr \<lparr>source = iterator, remaining = None\<rparr>
      | Some n \<Rightarrow>
          if 0 \<le> n \<and> n \<le> maxsize
          then Inr \<lparr>source = iterator, remaining = Some (nat n)\<rparr>
          else Inl ValueError)"

text \<open>
  One \<open>next()\<close> on the islice object: \<open>None\<close> is \<open>StopIteration\<close>.  The bound is
  tested before the underlying iterator is asked for an item.
\<close>

definition islice_next :: "'a islice_obj \<Rightarrow> ('a \<times> 'a islice_obj) option" where
  "islice_next g =
     (if remaining g = Some 0 then None
      else (case source g of
              [] \<Rightarrow> None
            | x # xs \<Rightarrow>
                Some (x, \<lparr>source = xs, remaining = map_option (\<lambda>k. k - 1) (remaining g)\<rparr>)))"

lemma islice_next_shorter:
  "islice_next g = Some (x, g') \<Longrightarrow> length (source g') < length (source g)"
  by (auto simp: islice_next_def split: if_splits list.splits)

text \<open>Consuming the islice object to the end: the items produced and the final state.\<close>

function islice_list :: "'a islice_obj \<Rightarrow> 'a list \<times> 'a islice_obj" where
  "islice_list g =
     (case islice_next g of
        None \<Rightarrow> ([], g)
      | Some (x, g') \<Rightarrow> (case islice_list g' of (ys, g'') \<Rightarrow> (x # ys, g'')))"
  by pat_completeness auto
termination
  by (relation "measure (\<lambda>g. length (source g))") (auto dest: islice_next_shorter)

declare islice_list.simps [simp del]

definition limit :: "int \<Rightarrow> 'a list \<Rightarrow> int option \<Rightarrow> error + 'a islice_obj" where
  "limit maxsize iterator n =
     (let n = (if n = Some 0 then None else n) in islice maxsize iterator n)"

section \<open>filters.py: attribute filters and the composite filter\<close>

text \<open>
  The values a filter compares: the attribute fetched by \<open>get\<close> and the reference value
  of the filter.  A \<open>bool\<close> is a number for Python's comparisons (\<open>True == 1.0\<close>).
\<close>

datatype pyval = VDate pydate | VFloat pyfloat | VBool bool

text \<open>The comparators \<open>operator.eq\<close>, \<open>operator.le\<close> and \<open>operator.ge\<close>.\<close>

datatype comparator = op_eq | op_le | op_ge

fun as_number :: "pyval \<Rightarrow> pyfloat option" where
  "as_number (VFloat x) = Some x"
| "as_number (VBool b) = Some (Fin (if b then 1 else 0))"
| "as_number (VDate d) = None"

text \<open>
  \<open>op(x, value)\<close>.  Against \<open>None\<close>, or between a date and a number, \<open>==\<close> is
  \<open>False\<close> and an ordering comparison raises \<open>TypeError\<close>.
\<close>

definition apply_op :: "comparator \<Rightarrow> pyval \<Rightarrow> pyval option \<Rightarrow> error + bool" where
  "apply_op c x v =
     (case v of
        None \<Rightarrow> (case c of op_eq \<Rightarrow> Inr False | op_le \<Rightarrow> Inl TypeError | op_ge \<Rightarrow> Inl TypeError)
      | Some y \<Rightarrow>
          (case (x, y) of
             (VDate a, VDate b) \<Rightarrow>
               Inr (case c of op_eq \<Rightarrow> a = b | op_le \<Rightarrow> date_le a b | op_ge \<Rightarrow> date_ge a b)
           | _ \<Rightarrow>
               (case (as_number x, as_number y) of
                  (Some a, Some b) \<Rightarrow>
                    Inr (case c of
                           op_eq \<Rightarrow> float_eq a b
                         | op_le \<Rightarrow> float_le a b
                         | op_ge \<Rightarrow> float_ge a b)
                | _ \<Rightarrow>
                    (case c of
                       op_eq \<Rightarrow> Inr False
                     | op_le \<Rightarrow> Inl TypeError
                     | op_ge \<Rightarrow> Inl TypeError))))"

text \<open>
  The class of a filter object selects its \<open>get\<close>; \<open>AttributeFilter_base\<close> is the
  superclass itself, whose \<open>get\<close> raises.
\<close>

datatype filter_class =
    AttributeFilter_base
  | DateFilter
  | DistanceFilter
  | VelocityFilter
  | DiameterFilter
  | HazardousFilter

record AttributeFilter =
  cls :: filter_class
  op :: comparator
  ref_value :: "pyval option"

text \<open>
  \<open>cls.get(approach)\<close>.  The diameter and the hazard flag are read through
  \<open>approach.neo\<close>; on an approach that is not linked (\<open>neo\<close> is \<open>None\<close>) the attribute
  access raises \<open>AttributeError\<close>.
\<close>

fun get :: "heap \<Rightarrow> filter_class \<Rightarrow> ca_ref \<Rightarrow> error + pyval" where
  "get h AttributeFilter_base approach = Inl UnsupportedCriterionError"
| "get h DateFilter approach = Inr (VDate (dt_date (time (ca_at h approach))))"
| "get h DistanceFilter approach = Inr (VFloat (distance (ca_at h approach)))"
| "get h VelocityFilter approach = Inr (VFloat (velocity (ca_at h approach)))"
| "get h DiameterFilter approach =
     (case neo (ca_at h approach) of
        None \<Rightarrow> Inl AttributeError
      | Some r \<Rightarrow> Inr (VFloat (diameter (neo_at h r))))"
| "get h HazardousFilter approach =
     (case neo (ca_at h approach) of
        None \<Rightarrow> Inl AttributeError
      | Some r \<Rightarrow> Inr (VBool (hazardous (neo_at h r))))"

definition AttributeFilter_call :: "heap \<Rightarrow> AttributeFilter \<Rightarrow> ca_ref \<Rightarrow> error + bool" where
  "AttributeFilter_call h f approach =
     (case get h (cls f) approach of
        Inl e \<Rightarrow> Inl e
      | Inr x \<Rightarrow> apply_op (op f) x (ref_value f))"

text \<open>The dataclass \<open>Filter\<close>: ten attribute filters, in the order of its fields.\<close>

record Filter =
  date_filter :: AttributeFilter
  start_date_filter :: AttributeFilter
  end_date_filter :: AttributeFilter
  distance_min_filter :: AttributeFilter
  distance_max_filter :: AttributeFilter
  velocity_min_filter :: AttributeFilter
  velocity_max_filter :: AttributeFilter
  diameter_min_filter :: AttributeFilter
  diameter_max_filter :: AttributeFilter
  hazardous_filter :: AttributeFilter

text \<open>\<open>vars(self).items()\<close> walks the fields in declaration order.\<close>

definition vars :: "Filter \<Rightarrow> AttributeFilter list" where
  "vars f =
     [date_filter f, start_date_filter f, end_date_filter f,
      distance_min_filter f, distance_max_filter f,
      velocity_min_filter f, velocity_max_filter f,
      diameter_min_filter f, diameter_max_filter f,
      hazardous_filter f]"

text \<open>
  The loop of \<open>Filter.__call__\<close>, with \<open>result\<close> as its accumulator.
  \<open>result and filter_(approach)\<close> does not call the filter once \<open>result\<close> is false.
\<close>

fun Filter_loop :: "heap \<Rightarrow> AttributeFilter list \<Rightarrow> ca_ref \<Rightarrow> bool \<Rightarrow> error + bool" where
  "Filter_loop h [] approach result = Inr result"
| "Filter_loop h (flt # fs) approach result =
     (if ref_value flt \<noteq> None
      then (if result
            then (case AttributeFilter_call h flt approach of
                    Inl e \<Rightarrow> Inl e
                  | Inr b \<Rightarrow> Filter_loop h fs approach b)
            else Filter_loop h fs approach False)
      else Filter_loop h fs approach result)"

definition Filter_call :: "heap \<Rightarrow> Filter \<Rightarrow> ca_ref \<Rightarrow> error + bool" where
  "Filter_call h f approach = Filter_loop h (vars f) approach True"

definition create_filters ::
  "pydate option \<Rightarrow> pydate option \<Rightarrow> pydate option \<Rightarrow>
   pyfloat option \<Rightarrow> pyfloat option \<Rightarrow> pyfloat option \<Rightarrow> pyfloat option \<Rightarrow>
   pyfloat option \<Rightarrow> pyfloat option \<Rightarrow> bool option \<Rightarrow> Filter" where
  "create_filters date start_date end_date distance_min distance_max
       velocity_min velocity_max diameter_min diameter_max hazardous_v =
     \<lparr>date_filter = \<lparr>cls = DateFilter, op = op_eq, ref_value = map_option VDate date\<rparr>,
      start_date_filter = \<lparr>cls = DateFilter, op = op_ge, ref_value = map_option VDate start_date\<rparr>,
      end_date_filter = \<lparr>cls = DateFilter, op = op_le, ref_value = map_option VDate end_date\<rparr>,
      distance_min_filter =
        \<lparr>cls = DistanceFilter, op = op_ge, ref_value = map_option VFloat distance_min\<rparr>,
      distance_max_filter =
        \<lparr>cls = DistanceFilter, op = op_le, ref_value = map_option VFloat distance_max\<rparr>,
      velocity_min_filter =
        \<lparr>cls = VelocityFilter, op = op_ge, ref_value = map_option VFloat velocity_min\<rparr>,
      velocity_max_filter =
        \<lparr>cls = VelocityFilter, op = op_le, ref_value = map_option VFloat velocity_max\<rparr>,
      diameter_min_filter =
        \<lparr>cls = DiameterFilter, op = op_ge, ref_value = map_option VFloat diameter_min\<rparr>,
      diameter_max_filter =
        \<lparr>cls = DiameterFilter, op = op_le, ref_value = map_option VFloat diameter_max\<rparr>,
      hazardous_filter =
        \<lparr>cls = HazardousFilter, op = op_eq, ref_value = map_option VBool hazardous_v\<rparr>\<rparr>"

section \<open>neo/database.py: the linked store\<close>

text \<open>
  \<open>db_neos\<close> and \<open>db_approaches\<close> are the attributes \<open>_neos\<close> and \<open>_approaches\<close>: the
  two collections handed to the constructor, as lists of references.  \<open>neosByDes\<close> and
  \<open>neosByName\<close> are the dictionaries \<open>_neosByDes\<close> and \<open>_neosByName\<close> from a key to a
  position in \<open>_neos\<close>.
\<close>

record NEODatabase =
  db_neos :: "neo_ref list"
  db_approaches :: "ca_ref list"
  neosByDes :: "string \<rightharpoonup> nat"
  neosByName :: "string \<rightharpoonup> nat"

text \<open>
  The dictionary comprehension \<open>{key(neo): i for i, neo in enumerate(neos) if key(neo)
  is not None}\<close>: entries are written in list order, so a later object replaces an
  earlier one under the same key.
\<close>

definition index_by ::
  "(NearEarthObject \<Rightarrow> string option) \<Rightarrow> heap \<Rightarrow> neo_ref list \<Rightarrow> (string \<rightharpoonup> nat)" where
  "index_by key h neos =
     foldl (\<lambda>m (i, r). case key (neo_at h r) of None \<Rightarrow> m | Some k \<Rightarrow> m(k \<mapsto> i))
       Map.empty (enumerate 0 neos)"

text \<open>
  The linking loop of the constructor.  \<open>self._neosByDes[approach._designation]\<close> raises
  \<open>KeyError\<close> on a key the dictionary does not hold (\<open>None\<close> is never a key), and
  \<open>self._neos[i]\<close> raises \<open>IndexError\<close> out of range.  The heap is returned in either
  case: what was linked before an exception stays linked.
\<close>

fun link :: "NEODatabase \<Rightarrow> ca_ref list \<Rightarrow> heap \<Rightarrow> error option \<times> heap" where
  "link db [] h = (None, h)"
| "link db (approach # rest) h =
     (case ca_designation (ca_at h approach) of
        None \<Rightarrow> (Some KeyError, h)
      | Some d \<Rightarrow>
          (case neosByDes db d of
             None \<Rightarrow> (Some KeyError, h)
           | Some i \<Rightarrow>
               if i < length (db_neos db)
               then
                 (let r = db_neos db ! i;
                      h1 = h\<lparr>ca_at := (ca_at h)(approach := (ca_at h approach)\<lparr>neo := Some r\<rparr>)\<rparr>;
                      h2 = h1\<lparr>neo_at := (neo_at h1)
                             (r := (neo_at h1 r)\<lparr>approaches := approaches (neo_at h1 r) @ [approach]\<rparr>)\<rparr>
                  in link db rest h2)
               else (Some IndexError, h)))"

definition NEODatabase_init ::
  "heap \<Rightarrow> neo_ref list \<Rightarrow> ca_ref list \<Rightarrow> (error + NEODatabase) \<times> heap" where
  "NEODatabase_init h neos approaches_in =
     (let db = \<lparr>db_neos = neos, db_approaches = approaches_in,
                neosByDes = index_by designation h neos,
                neosByName = index_by name h neos\<rparr>
      in case link db approaches_in h of
           (None, h') \<Rightarrow> (Inr db, h')
         | (Some e, h') \<Rightarrow> (Inl e, h'))"

text \<open>
  The two lookups catch \<open>KeyError\<close>, \<open>IndexError\<close> and \<open>TypeError\<close> and return \<open>None\<close>.
  The argument is \<open>None\<close> or a string.
\<close>

definition get_neo_by_designation :: "NEODatabase \<Rightarrow> string option \<Rightarrow> neo_ref option" where
  "get_neo_by_designation db d =
     (case d of
        None \<Rightarrow> None
      | Some k \<Rightarrow>
          (case neosByDes db k of
             None \<Rightarrow> None
           | Some i \<Rightarrow> if i < length (db_neos db) then Some (db_neos db ! i) else None))"

definition get_neo_by_name :: "NEODatabase \<Rightarrow> string option \<Rightarrow> neo_ref option" where
  "get_neo_by_name db n =
     (case n of
        None \<Rightarrow> None
      | Some k \<Rightarrow>
          (case neosByName db k of
             None \<Rightarrow> None
           | Some i \<Rightarrow> if i < length (db_neos db) then Some (db_neos db ! i) else None))"

subsection \<open>query\<close>

text \<open>
  The argument \<open>filters\<close> of \<open>query\<close>: its default, the empty tuple \<open>()\<close>, or a
  callable taking an approach.  A callable reads the approach (and through it the heap)
  and returns a boolean or raises.  Calling the empty tuple raises \<open>TypeError\<close>.
\<close>

datatype filters_arg =
    empty_tuple
  | Callable "heap \<Rightarrow> ca_ref \<Rightarrow> error + bool"

fun call_filters :: "heap \<Rightarrow> filters_arg \<Rightarrow> ca_ref \<Rightarrow> error + bool" where
  "call_filters h empty_tuple approach = Inl TypeError"
| "call_filters h (Callable p) approach = p h approach"

text \<open>
  \<open>query\<close> is a generator function: calling it runs nothing and returns a generator
  object, here the filters and the approaches the \<open>for\<close> loop has yet to visit.
\<close>

record query_gen =
  gen_filters :: filters_arg
  pending :: "ca_ref list"

definition query :: "NEODatabase \<Rightarrow> filters_arg \<Rightarrow> query_gen" where
  "query db filters = \<lparr>gen_filters = filters, pending = db_approaches db\<rparr>"

text \<open>
  What one \<open>next()\<close> on the generator does: the loop runs on until it yields an approach
  (leaving the rest pending), ends (\<open>StopIteration\<close>), or the filter raises.
\<close>

datatype step = Yield ca_ref query_gen | StopIteration | Raised error

fun query_loop :: "heap \<Rightarrow> filters_arg \<Rightarrow> ca_ref list \<Rightarrow> step" where
  "query_loop h filters [] = StopIteration"
| "query_loop h filters (approach # rest) =
     (case call_filters h filters approach of
        Inl e \<Rightarrow> Raised e
      | Inr b \<Rightarrow>
          if b then Yield approach \<lparr>gen_filters = filters, pending = rest\<rparr>
          else query_loop h filters rest)"

definition query_next :: "heap \<Rightarrow> query_gen \<Rightarrow> step" where
  "query_next h g = query_loop h (gen_filters g) (pending g)"

lemma query_loop_shorter:
  "query_loop h f xs = Yield a g \<Longrightarrow> length (pending g) < length xs"
  by (induction xs) (auto split: sum.splits if_splits)

lemma query_next_shorter:
  "query_next h g = Yield a g' \<Longrightarrow> length (pending g') < length (pending g)"
  unfolding query_next_def by (rule query_loop_shorter)

text \<open>
  Consuming the generator to the end (\<open>list(gen)\<close>): the approaches yielded, and the
  exception that ended the iteration if there was one.
\<close>

function query_list :: "heap \<Rightarrow> query_gen \<Rightarrow> ca_ref list \<times> error option" where
  "query_list h g =
     (case query_next h g of
        StopIteration \<Rightarrow> ([], None)
      | Raised e \<Rightarrow> ([], Some e)
      | Yield a g' \<Rightarrow> (case query_list h g' of (ys, e) \<Rightarrow> (a # ys, e)))"
  by pat_completeness auto
termination
  by (relation "measure (\<lambda>(h, g). length (pending g))") (auto dest: query_next_shorter)

declare query_list.simps [simp del]

section \<open>A small data set\<close>

text \<open>
  One object and a few approaches, as the constructors build them from their rows, for
  the concrete instances below.  In \<open>example_heap\<close> every object reference holds the
  object \<open>A1\<close>; every approach reference holds the same approach of \<open>A1\<close>, but for
  reference 2, whose designation \<open>B2\<close> belongs to no object, and reference 3, whose
  distance is unknown.  \<open>two_object_heap\<close> is the same heap with a second object \<open>B2\<close>
  at object reference 1.  The rows are ASCII text, so \<open>float\<close> never consults the Unicode
  tables on them; \<open>no_unicode\<close> stands in for that part.
\<close>

definition no_unicode :: "string \<Rightarrow> error + pyfloat" where
  "no_unicode s = Inl ValueError"

definition example_neo :: NearEarthObject where
  "example_neo =
     \<lparr>designation = Some ''A1'', name = Some ''Rocky'', diameter = NaN, hazardous = False,
      approaches = []\<rparr>"

definition example_approach :: CloseApproach where
  "example_approach =
     \<lparr>ca_designation = Some ''A1'',
      time = \<lparr>dt_date = \<lparr>year = 2020, month = 1, day = 1\<rparr>, dt_hour = 0, dt_minute = 0\<rparr>,
      distance = Fin (1 / 2), velocity = Fin 10, neo = None\<rparr>"


definition example_heap :: heap where
  "example_heap =
     \<lparr>neo_at = (\<lambda>r. example_neo),
      ca_at = (\<lambda>a. example_approach)
        (2 := example_approach\<lparr>ca_designation := Some ''B2''\<rparr>,
         3 := example_approach\<lparr>distance := NaN\<rparr>)\<rparr>"

definition unnamed_neo :: NearEarthObject where
  "unnamed_neo =
     \<lparr>designation = Some '''', name = None, diameter = NaN, hazardous = False,
      approaches = []\<rparr>"

definition second_neo :: NearEarthObject where
  "second_neo =
     \<lparr>designation = Some ''B2'', name = None, diameter = Fin 2, hazardous = True,
      approaches = []\<rparr>"

definition two_object_heap :: heap where
  "two_object_heap = example_heap\<lparr>neo_at := (neo_at example_heap)(1 := second_neo)\<rparr>"

lemmas float_defs = py_float_def float_str_def ascii_def float_ascii_def dict_get_def strip_def is_space_def sign_of_def lower_ord_def is_word_def
  floatnumber_def number_def digitpart_def is_digit_def digit_val_def exponent_def
  nat_of_digits_def scale10_def


lemma example_neo_built:
  "NearEarthObject_init Fin no_unicode
     [''pdes'' \<mapsto> PyStr ''A1'', ''name'' \<mapsto> PyStr ''Rocky'', ''diameter'' \<mapsto> PyStr '''',
      ''pha'' \<mapsto> PyStr ''N''] =
   Inr example_neo"
  by (simp add: NearEarthObject_init_def example_neo_def float_defs)

lemma example_approach_built:
  "CloseApproach_init Fin no_unicode
     (\<lambda>cd. Inr \<lparr>dt_date = \<lparr>year = 2020, month = 1, day = 1\<rparr>, dt_hour = 0, dt_minute = 0\<rparr>)
     [''des'' \<mapsto> PyStr ''A1'', ''cd'' \<mapsto> PyStr ''2020-Jan-01 00:00'',
      ''dist'' \<mapsto> PyStr ''0.5'', ''v_rel'' \<mapsto> PyStr ''10.0''] =
   Inr example_approach"
  by (simp add: CloseApproach_init_def example_approach_def float_defs)

lemma example_init:
  "\<exists>db h'. NEODatabase_init example_heap [0] [0, 1, 3] = (Inr db, h') \<and>
     db_neos db = [0] \<and> db_approaches db = [0, 1, 3] \<and>
     approaches (neo_at h' 0) = [0, 1, 3] \<and>
     neo (ca_at h' 0) = Some 0 \<and> neo (ca_at h' 1) = Some 0 \<and>
     distance (ca_at h' 0) = Fin (1 / 2) \<and> velocity (ca_at h' 0) = Fin 10 \<and>
     hazardous (neo_at h' 0) = False \<and> diameter (neo_at h' 0) = NaN \<and>
     designation (neo_at h' 0) = Some ''A1'' \<and> neosByDes db ''A1'' = Some 0 \<and>
     distance (ca_at h' 1) = Fin (1 / 2) \<and> distance (ca_at h' 3) = NaN"
  by (simp add: NEODatabase_init_def index_by_def link.simps example_heap_def example_neo_def
      example_approach_def Let_def)

lemma two_object_init:
  "\<exists>db h'. NEODatabase_init two_object_heap [0, 1] [0, 2, 1, 3] = (Inr db, h') \<and>
     db_neos db = [0, 1] \<and> db_approaches db = [0, 2, 1, 3] \<and>
     approaches (neo_at h' 0) = [0, 1, 3] \<and> approaches (neo_at h' 1) = [2] \<and>
     neo (ca_at h' 0) = Some 0 \<and> neo (ca_at h' 1) = Some 0 \<and>
     neo (ca_at h' 2) = Some 1 \<and> neo (ca_at h' 3) = Some 0"
  by (simp add: NEODatabase_init_def index_by_def link.simps two_object_heap_def
      example_heap_def example_neo_def second_neo_def example_approach_def Let_def)

lemma repeated_init:
  "\<exists>db h'. NEODatabase_init example_heap [0] [0, 0] = (Inr db, h') \<and>
     db_neos db = [0] \<and> db_approaches db = [0, 0] \<and>
     approaches (neo_at h' 0) = [0, 0] \<and> neo (ca_at h' 0) = Some 0"
  by (simp add: NEODatabase_init_def index_by_def link.simps
      example_heap_def example_neo_def example_approach_def Let_def)

section \<open>Properties of limit\<close>

lemma islice_list_unbounded:
  "islice_list \<lparr>source = xs, remaining = None\<rparr> = (xs, \<lparr>source = [], remaining = None\<rparr>)"
proof (induction xs)
  case Nil
  show ?case by (simp add: islice_list.simps [of "\<lparr>source = [], remaining = None\<rparr>"] islice_next_def)
next
  case (Cons x xs)
  show ?case
    by (simp add: islice_list.simps [of "\<lparr>source = x # xs, remaining = None\<rparr>"] islice_next_def Cons.IH)
qed

lemma islice_list_bounded:
  "islice_list \<lparr>source = xs, remaining = Some k\<rparr> =
     (take k xs, \<lparr>source = drop k xs, remaining = Some (k - length xs)\<rparr>)"
proof (induction xs arbitrary: k)
  case Nil
  show ?case by (simp add: islice_list.simps [of "\<lparr>source = [], remaining = Some k\<rparr>"] islice_next_def)
next
  case (Cons x xs)
  show ?case
  proof (cases k)
    case 0
    then show ?thesis
      by (simp add: islice_list.simps [of "\<lparr>source = x # xs, remaining = Some 0\<rparr>"] islice_next_def)
  next
    case (Suc j)
    then show ?thesis
      by (simp add: islice_list.simps [of "\<lparr>source = x # xs, remaining = Some (Suc j)\<rparr>"]
          islice_next_def Cons.IH)
  qed
qed

lemma take_min_length: "take (min k (length xs)) xs = take k xs"
  by (simp add: min_def)

text \<open>
  Claim C10.  A negative limit makes \<open>limit\<close> raise \<open>ValueError\<close> at the call itself
  (\<open>limit\<close> is a plain function, and \<open>islice\<close> checks its bound when it is built): the
  result is neither the whole sequence nor an empty one.
\<close>

theorem limit_negative:
  "n < 0 \<Longrightarrow> limit maxsize iterator (Some n) = Inl ValueError"
  by (simp add: limit_def islice_def)

theorem limit_negative_witness:
  "(-1::int) < 0 \<and> limit (2 ^ 63 - 1) [1, 2, 3 :: nat] (Some (-1)) = Inl ValueError"
  using limit_negative [of "-1" "2 ^ 63 - 1" "[1, 2, 3 :: nat]"] by simp

text \<open>
  Claim C7, as the code has it.  \<open>limit seq None\<close> and \<open>limit seq 0\<close> produce \<open>seq\<close>
  unchanged.  For a positive \<open>n\<close> that does not exceed \<open>sys.maxsize\<close>, \<open>limit seq n\<close>
  produces the first \<open>min n (length seq)\<close> items in order, and the underlying iterator
  is left holding everything after the first \<open>n\<close> items.  A positive \<open>n\<close> above
  \<open>sys.maxsize\<close> raises \<open>ValueError\<close>.
\<close>

theorem limit_spec:
  "(\<exists>g. limit maxsize seq None = Inr g \<and> fst (islice_list g) = seq) \<and>
   (\<exists>g. limit maxsize seq (Some 0) = Inr g \<and> fst (islice_list g) = seq) \<and>
   (0 < n \<and> n \<le> maxsize \<longrightarrow>
      (\<exists>g. limit maxsize seq (Some n) = Inr g \<and>
           fst (islice_list g) = take (min (nat n) (length seq)) seq \<and>
           source (snd (islice_list g)) = drop (nat n) seq)) \<and>
   (0 < n \<and> maxsize < n \<longrightarrow> limit maxsize seq (Some n) = Inl ValueError)"
  by (auto simp: limit_def islice_def islice_list_unbounded islice_list_bounded take_min_length)

theorem limit_spec_witness:
  "(0::int) < 3 \<and> (3::int) \<le> 2 ^ 63 - 1 \<and>
   (\<exists>g. limit (2 ^ 63 - 1) [1, 2, 3, 4, 5 :: nat] (Some 3) = Inr g \<and>
        fst (islice_list g) = [1, 2, 3] \<and> source (snd (islice_list g)) = [4, 5]) \<and>
   (\<exists>g. limit (2 ^ 63 - 1) [1, 2, 3, 4, 5 :: nat] (Some 10) = Inr g \<and>
        fst (islice_list g) = [1, 2, 3, 4, 5]) \<and>
   (\<exists>g. limit (2 ^ 63 - 1) [1, 2, 3, 4, 5 :: nat] (Some 0) = Inr g \<and>
        fst (islice_list g) = [1, 2, 3, 4, 5]) \<and>
   (2 ^ 63 - 1 :: int) < 2 ^ 63 \<and>
   limit (2 ^ 63 - 1) [1, 2, 3, 4, 5 :: nat] (Some (2 ^ 63)) = Inl ValueError"
proof -
  note three = limit_spec [of "2 ^ 63 - 1" "[1, 2, 3, 4, 5 :: nat]" 3]
  note ten = limit_spec [of "2 ^ 63 - 1" "[1, 2, 3, 4, 5 :: nat]" 10]
  note big = limit_spec [of "2 ^ 63 - 1" "[1, 2, 3, 4, 5 :: nat]" "2 ^ 63"]
  have 1: "\<exists>g. limit (2 ^ 63 - 1) [1, 2, 3, 4, 5 :: nat] (Some 3) = Inr g \<and>
        fst (islice_list g) = [1, 2, 3] \<and> source (snd (islice_list g)) = [4, 5]"
    using three by simp
  have 2: "\<exists>g. limit (2 ^ 63 - 1) [1, 2, 3, 4, 5 :: nat] (Some 10) = Inr g \<and>
        fst (islice_list g) = [1, 2, 3, 4, 5]"
    using ten by auto
  have 3: "\<exists>g. limit (2 ^ 63 - 1) [1, 2, 3, 4, 5 :: nat] (Some 0) = Inr g \<and>
        fst (islice_list g) = [1, 2, 3, 4, 5]"
    using three by blast
  have 4: "limit (2 ^ 63 - 1) [1, 2, 3, 4, 5 :: nat] (Some (2 ^ 63)) = Inl ValueError"
    using big by simp
  from 1 2 3 4 show ?thesis by simp
qed

text \<open>
  On a 64-bit platform (\<open>sys.maxsize = 2 ^ 63 - 1\<close>) the positive limit \<open>2 ^ 63\<close> raises
  instead of producing the five items.
\<close>

theorem limit_beyond_maxsize_counterexample:
  "(0::int) < 2 ^ 63 \<and> limit (2 ^ 63 - 1) [1, 2, 3, 4, 5 :: nat] (Some (2 ^ 63)) = Inl ValueError"
  by (simp add: limit_def islice_def)

section \<open>Properties of the filters\<close>

lemma float_le_NaN_right [simp]: "float_le x NaN = False"
  by (cases x) simp_all

lemma Filter_loop_total:
  assumes "\<And>f. f \<in> set fs \<Longrightarrow> ref_value f \<noteq> None \<Longrightarrow> \<exists>b. AttributeFilter_call h f a = Inr b"
  shows "Filter_loop h fs a result =
           Inr (result \<and> list_all (\<lambda>f. ref_value f = None \<or> AttributeFilter_call h f a = Inr True) fs)"
  using assms
proof (induction fs arbitrary: result)
  case Nil
  show ?case by simp
next
  case (Cons f fs)
  have IH: "\<And>r. Filter_loop h fs a r =
      Inr (r \<and> list_all (\<lambda>f. ref_value f = None \<or> AttributeFilter_call h f a = Inr True) fs)"
    using Cons.IH Cons.prems by simp
  show ?case
  proof (cases "ref_value f = None")
    case True
    then show ?thesis by (simp add: IH)
  next
    case False
    then obtain b where b: "AttributeFilter_call h f a = Inr b"
      using Cons.prems [of f] by auto
    show ?thesis using False b by (cases result) (auto simp: IH)
  qed
qed

text \<open>What each slot of \<open>create_filters\<close> decides, one slot at a time.\<close>

lemma slot_date_eq:
  "AttributeFilter_call h \<lparr>cls = DateFilter, op = op_eq, ref_value = Some (VDate x)\<rparr> a =
     Inr (dt_date (time (ca_at h a)) = x)"
  by (simp add: AttributeFilter_call_def apply_op_def)

lemma slot_date_ge:
  "AttributeFilter_call h \<lparr>cls = DateFilter, op = op_ge, ref_value = Some (VDate x)\<rparr> a =
     Inr (date_ge (dt_date (time (ca_at h a))) x)"
  by (simp add: AttributeFilter_call_def apply_op_def)

lemma slot_date_le:
  "AttributeFilter_call h \<lparr>cls = DateFilter, op = op_le, ref_value = Some (VDate x)\<rparr> a =
     Inr (date_le (dt_date (time (ca_at h a))) x)"
  by (simp add: AttributeFilter_call_def apply_op_def)

lemma slot_distance:
  "AttributeFilter_call h \<lparr>cls = DistanceFilter, op = c, ref_value = Some (VFloat x)\<rparr> a =
     Inr (case c of op_eq \<Rightarrow> float_eq (distance (ca_at h a)) x
                  | op_le \<Rightarrow> float_le (distance (ca_at h a)) x
                  | op_ge \<Rightarrow> float_ge (distance (ca_at h a)) x)"
  by (simp add: AttributeFilter_call_def apply_op_def)

lemma slot_velocity:
  "AttributeFilter_call h \<lparr>cls = VelocityFilter, op = c, ref_value = Some (VFloat x)\<rparr> a =
     Inr (case c of op_eq \<Rightarrow> float_eq (velocity (ca_at h a)) x
                  | op_le \<Rightarrow> float_le (velocity (ca_at h a)) x
                  | op_ge \<Rightarrow> float_ge (velocity (ca_at h a)) x)"
  by (simp add: AttributeFilter_call_def apply_op_def)

lemma slot_diameter:
  "neo (ca_at h a) = Some r \<Longrightarrow>
   AttributeFilter_call h \<lparr>cls = DiameterFilter, op = c, ref_value = Some (VFloat x)\<rparr> a =
     Inr (case c of op_eq \<Rightarrow> float_eq (diameter (neo_at h r)) x
                  | op_le \<Rightarrow> float_le (diameter (neo_at h r)) x
                  | op_ge \<Rightarrow> float_ge (diameter (neo_at h r)) x)"
  by (simp add: AttributeFilter_call_def apply_op_def)

lemma slot_hazardous:
  "neo (ca_at h a) = Some r \<Longrightarrow>
   AttributeFilter_call h \<lparr>cls = HazardousFilter, op = op_eq, ref_value = Some (VBool x)\<rparr> a =
     Inr (hazardous (neo_at h r) = x)"
  by (auto simp add: AttributeFilter_call_def apply_op_def float_eq_def)

text \<open>
  \<open>present v p\<close>: the constraint \<open>p\<close> of a slot whose reference value is \<open>v\<close>; a
  slot without a reference value constrains nothing.
\<close>

definition present :: "'a option \<Rightarrow> ('a \<Rightarrow> bool) \<Rightarrow> bool" where
  "present v p = (case v of None \<Rightarrow> True | Some x \<Rightarrow> p x)"

text \<open>
  Claim C5.  Calling the composite built by \<open>create_filters\<close> on an approach returns the
  conjunction of the constraints of exactly the slots whose reference value is not
  \<open>None\<close> (true when there is none): the date slot compares the approach's calendar
  date with \<open>=\<close>, the start and minimum slots compare with \<open>\<ge>\<close>, the end and maximum
  slots with \<open>\<le>\<close>, the hazardous slot with \<open>=\<close>, each on the attribute of its kind.
  The diameter and hazardous slots read the linked object \<open>r\<close>, so the approach is
  linked wherever one of them is constrained.
\<close>

theorem create_filters_call:
  assumes linked:
    "neo (ca_at h a) = Some r \<or> (diameter_min = None \<and> diameter_max = None \<and> hz = None)"
  shows "Filter_call h
           (create_filters date start_date end_date distance_min distance_max
              velocity_min velocity_max diameter_min diameter_max hz) a =
         Inr (present date (\<lambda>x. dt_date (time (ca_at h a)) = x) \<and>
              present start_date (\<lambda>x. date_ge (dt_date (time (ca_at h a))) x) \<and>
              present end_date (\<lambda>x. date_le (dt_date (time (ca_at h a))) x) \<and>
              present distance_min (\<lambda>x. float_ge (distance (ca_at h a)) x) \<and>
              present distance_max (\<lambda>x. float_le (distance (ca_at h a)) x) \<and>
              present velocity_min (\<lambda>x. float_ge (velocity (ca_at h a)) x) \<and>
              present velocity_max (\<lambda>x. float_le (velocity (ca_at h a)) x) \<and>
              present diameter_min (\<lambda>x. float_ge (diameter (neo_at h r)) x) \<and>
              present diameter_max (\<lambda>x. float_le (diameter (neo_at h r)) x) \<and>
              present hz (\<lambda>x. hazardous (neo_at h r) = x))"
proof -
  let ?F = "create_filters date start_date end_date distance_min distance_max
              velocity_min velocity_max diameter_min diameter_max hz"
  let ?f1 = "\<lparr>cls = DateFilter, op = op_eq, ref_value = map_option VDate date\<rparr>"
  let ?f2 = "\<lparr>cls = DateFilter, op = op_ge, ref_value = map_option VDate start_date\<rparr>"
  let ?f3 = "\<lparr>cls = DateFilter, op = op_le, ref_value = map_option VDate end_date\<rparr>"
  let ?f4 = "\<lparr>cls = DistanceFilter, op = op_ge, ref_value = map_option VFloat distance_min\<rparr>"
  let ?f5 = "\<lparr>cls = DistanceFilter, op = op_le, ref_value = map_option VFloat distance_max\<rparr>"
  let ?f6 = "\<lparr>cls = VelocityFilter, op = op_ge, ref_value = map_option VFloat velocity_min\<rparr>"
  let ?f7 = "\<lparr>cls = VelocityFilter, op = op_le, ref_value = map_option VFloat velocity_max\<rparr>"
  let ?f8 = "\<lparr>cls = DiameterFilter, op = op_ge, ref_value = map_option VFloat diameter_min\<rparr>"
  let ?f9 = "\<lparr>cls = DiameterFilter, op = op_le, ref_value = map_option VFloat diameter_max\<rparr>"
  let ?f10 = "\<lparr>cls = HazardousFilter, op = op_eq, ref_value = map_option VBool hz\<rparr>"
  let ?ok = "\<lambda>f. ref_value f = None \<or> AttributeFilter_call h f a = Inr True"
  have F: "vars ?F = [?f1, ?f2, ?f3, ?f4, ?f5, ?f6, ?f7, ?f8, ?f9, ?f10]"
    by (simp add: vars_def create_filters_def)
  have total: "\<exists>b. AttributeFilter_call h f a = Inr b"
    if "f \<in> set (vars ?F)" and "ref_value f \<noteq> None" for f
    using that linked unfolding F
    by (auto simp: slot_date_eq slot_date_ge slot_date_le slot_distance slot_velocity
        slot_diameter slot_hazardous)
  have e1: "?ok ?f1 = present date (\<lambda>x. dt_date (time (ca_at h a)) = x)"
    by (cases date) (simp_all add: present_def slot_date_eq)
  have e2: "?ok ?f2 = present start_date (\<lambda>x. date_ge (dt_date (time (ca_at h a))) x)"
    by (cases start_date) (simp_all add: present_def slot_date_ge)
  have e3: "?ok ?f3 = present end_date (\<lambda>x. date_le (dt_date (time (ca_at h a))) x)"
    by (cases end_date) (simp_all add: present_def slot_date_le)
  have e4: "?ok ?f4 = present distance_min (\<lambda>x. float_ge (distance (ca_at h a)) x)"
    by (cases distance_min) (simp_all add: present_def slot_distance)
  have e5: "?ok ?f5 = present distance_max (\<lambda>x. float_le (distance (ca_at h a)) x)"
    by (cases distance_max) (simp_all add: present_def slot_distance)
  have e6: "?ok ?f6 = present velocity_min (\<lambda>x. float_ge (velocity (ca_at h a)) x)"
    by (cases velocity_min) (simp_all add: present_def slot_velocity)
  have e7: "?ok ?f7 = present velocity_max (\<lambda>x. float_le (velocity (ca_at h a)) x)"
    by (cases velocity_max) (simp_all add: present_def slot_velocity)
  have e8: "?ok ?f8 = present diameter_min (\<lambda>x. float_ge (diameter (neo_at h r)) x)"
    using linked by (cases diameter_min) (auto simp add: present_def slot_diameter)
  have e9: "?ok ?f9 = present diameter_max (\<lambda>x. float_le (diameter (neo_at h r)) x)"
    using linked by (cases diameter_max) (auto simp add: present_def slot_diameter)
  have e10: "?ok ?f10 = present hz (\<lambda>x. hazardous (neo_at h r) = x)"
    using linked by (cases hz) (auto simp add: present_def slot_hazardous)
  have "Filter_call h ?F a = Inr (list_all ?ok (vars ?F))"
    unfolding Filter_call_def using Filter_loop_total [of "vars ?F" h a True] total by simp
  also have "list_all ?ok (vars ?F) =
      (?ok ?f1 \<and> ?ok ?f2 \<and> ?ok ?f3 \<and> ?ok ?f4 \<and> ?ok ?f5 \<and> ?ok ?f6 \<and> ?ok ?f7 \<and> ?ok ?f8 \<and>
       ?ok ?f9 \<and> ?ok ?f10)"
    unfolding F by (simp only: list.pred_inject simp_thms)
  finally show ?thesis
    by (simp only: e1 e2 e3 e4 e5 e6 e7 e8 e9 e10)
qed

theorem create_filters_call_witness:
  "\<exists>db h'. NEODatabase_init example_heap [0] [0, 1, 3] = (Inr db, h') \<and>
     neo (ca_at h' 0) = Some 0 \<and>
     Filter_call h'
       (create_filters None None None None (Some (Fin 1)) (Some (Fin 10)) None None None
          (Some False)) 0 = Inr True \<and>
     Filter_call h'
       (create_filters None None None None None None None (Some (Fin 0)) None None) 0 =
       Inr False \<and>
     neo (ca_at example_heap 0) = None \<and>
     Filter_call example_heap
       (create_filters (Some \<lparr>year = 2020, month = 1, day = 1\<rparr>) None None (Some (Fin 0))
          None None None None None None) 0 = Inr True"
proof -
  obtain db h' where init: "NEODatabase_init example_heap [0] [0, 1, 3] = (Inr db, h')"
    and linked: "neo (ca_at h' 0) = Some 0"
    and vals: "distance (ca_at h' 0) = Fin (1 / 2)" "velocity (ca_at h' 0) = Fin 10"
      "hazardous (neo_at h' 0) = False" "diameter (neo_at h' 0) = NaN"
    using example_init by blast
  have l: "neo (ca_at h' 0) = Some 0 \<or> (d1 = None \<and> d2 = None \<and> hz = None)" for d1 d2 hz
    by (simp add: linked)
  have t: "Filter_call h'
       (create_filters None None None None (Some (Fin 1)) (Some (Fin 10)) None None None
          (Some False)) 0 = Inr True"
    by (simp add: create_filters_call [OF l] present_def float_ge_def vals)
  have f: "Filter_call h'
       (create_filters None None None None None None None (Some (Fin 0)) None None) 0 =
       Inr False"
    by (simp add: create_filters_call [OF l] present_def float_ge_def vals)
  have un: "neo (ca_at example_heap 0) = None"
    by (simp add: example_heap_def example_approach_def)
  have r: "neo (ca_at example_heap 0) = Some 0 \<or>
      ((None :: pyfloat option) = None \<and> (None :: pyfloat option) = None \<and>
       (None :: bool option) = None)"
    by simp
  have u: "Filter_call example_heap
       (create_filters (Some \<lparr>year = 2020, month = 1, day = 1\<rparr>) None None (Some (Fin 0))
          None None None None None None) 0 = Inr True"
    unfolding create_filters_call [OF r]
    by (simp add: present_def float_ge_def example_heap_def example_approach_def)
  from init linked t f un u show ?thesis by blast
qed

section \<open>Properties of the store\<close>

subsection \<open>The index dictionaries\<close>

lemma index_fold_Some:
  "foldl (\<lambda>m (i, r). case key (neo_at h r) of None \<Rightarrow> m | Some k \<Rightarrow> m(k \<mapsto> i)) m
       (enumerate n xs) d = Some i \<Longrightarrow>
   m d = Some i \<or> (n \<le> i \<and> i < n + length xs \<and> key (neo_at h (xs ! (i - n))) = Some d)"
proof (induction xs arbitrary: m n)
  case Nil
  then show ?case by simp
next
  case (Cons x xs)
  let ?m = "case key (neo_at h x) of None \<Rightarrow> m | Some k \<Rightarrow> m(k \<mapsto> n)"
  from Cons.prems have "foldl (\<lambda>m (i, r). case key (neo_at h r) of None \<Rightarrow> m | Some k \<Rightarrow> m(k \<mapsto> i)) ?m
       (enumerate (Suc n) xs) d = Some i" by simp
  from Cons.IH [OF this]
  consider "?m d = Some i"
    | "Suc n \<le> i" "i < Suc n + length xs" "key (neo_at h (xs ! (i - Suc n))) = Some d"
    by blast
  then show ?case
  proof cases
    case 1
    then show ?thesis by (auto split: option.splits if_splits)
  next
    case 2
    from 2(1) obtain j where j: "i = Suc n + j"
      using le_Suc_ex by blast
    with 2 show ?thesis by simp
  qed
qed

lemma index_fold_dom:
  "dom (foldl (\<lambda>m (i, r). case key (neo_at h r) of None \<Rightarrow> m | Some k \<Rightarrow> m(k \<mapsto> i)) m
       (enumerate n xs)) =
   dom m \<union> {d. \<exists>r\<in>set xs. key (neo_at h r) = Some d}"
proof (induction xs arbitrary: m n)
  case Nil
  show ?case by simp
next
  case (Cons x xs)
  show ?case by (cases "key (neo_at h x)") (auto simp: Cons.IH split: if_splits)
qed

lemma index_by_Some:
  "index_by key h neos d = Some i \<Longrightarrow> i < length neos \<and> key (neo_at h (neos ! i)) = Some d"
  unfolding index_by_def by (drule index_fold_Some) simp

lemma index_by_dom:
  "dom (index_by key h neos) = {d. \<exists>r\<in>set neos. key (neo_at h r) = Some d}"
  unfolding index_by_def by (simp add: index_fold_dom)

subsection \<open>The linking loop\<close>

lemma link_ca_designation:
  "link db as h = (e, h') \<Longrightarrow> ca_designation (ca_at h' a) = ca_designation (ca_at h a)"
proof (induction as arbitrary: h)
  case Nil
  then show ?case by simp
next
  case (Cons x as)
  then show ?case
    by (auto simp: Let_def split: option.splits if_splits)
qed

lemma link_designation:
  "link db as h = (e, h') \<Longrightarrow> designation (neo_at h' r) = designation (neo_at h r)"
proof (induction as arbitrary: h)
  case Nil
  then show ?case by simp
next
  case (Cons x as)
  then show ?case
    by (auto simp: Let_def split: option.splits if_splits)
qed

lemma link_frame_ca:
  "link db as h = (e, h') \<Longrightarrow> a \<notin> set as \<Longrightarrow> ca_at h' a = ca_at h a"
proof (induction as arbitrary: h)
  case Nil
  then show ?case by simp
next
  case (Cons x as)
  then show ?case
    by (auto simp: Let_def split: option.splits if_splits)
qed


text \<open>
  The object an approach's foreign key resolves to, if any.  It depends on the key only,
  which linking never changes.
\<close>

definition resolve :: "NEODatabase \<Rightarrow> heap \<Rightarrow> ca_ref \<Rightarrow> neo_ref option" where
  "resolve db h a =
     (case ca_designation (ca_at h a) of
        None \<Rightarrow> None
      | Some d \<Rightarrow>
          (case neosByDes db d of
             None \<Rightarrow> None
           | Some i \<Rightarrow> if i < length (db_neos db) then Some (db_neos db ! i) else None))"

lemma resolve_cong:
  "(\<And>a. ca_designation (ca_at h' a) = ca_designation (ca_at h a)) \<Longrightarrow>
   resolve db h' = resolve db h"
  by (rule ext) (simp add: resolve_def)

lemma link_resolve:
  "link db as h = (e, h') \<Longrightarrow> resolve db h' = resolve db h"
  by (rule resolve_cong) (rule link_ca_designation)

text \<open>One turn of the loop, as a heap update.\<close>

definition link_step :: "heap \<Rightarrow> ca_ref \<Rightarrow> neo_ref \<Rightarrow> heap" where
  "link_step h a r =
     (let h1 = h\<lparr>ca_at := (ca_at h)(a := (ca_at h a)\<lparr>neo := Some r\<rparr>)\<rparr>
      in h1\<lparr>neo_at := (neo_at h1)
            (r := (neo_at h1 r)\<lparr>approaches := approaches (neo_at h1 r) @ [a]\<rparr>)\<rparr>)"

lemma link_Cons:
  "link db (a # as) h =
     (case resolve db h a of
        None \<Rightarrow>
          (if \<exists>d i. ca_designation (ca_at h a) = Some d \<and> neosByDes db d = Some i
           then (Some IndexError, h) else (Some KeyError, h))
      | Some r \<Rightarrow> link db as (link_step h a r))"
  by (auto simp: resolve_def link_step_def Let_def split: option.splits)

declare link.simps(2) [simp del]

lemma link_step_simps:
  "ca_designation (ca_at (link_step h a r) b) = ca_designation (ca_at h b)"
  "neo (ca_at (link_step h a r) a) = Some r"
  "b \<noteq> a \<Longrightarrow> ca_at (link_step h a r) b = ca_at h b"
  "approaches (neo_at (link_step h a r) r) = approaches (neo_at h r) @ [a]"
  "r' \<noteq> r \<Longrightarrow> neo_at (link_step h a r) r' = neo_at h r'"
  by (simp_all add: link_step_def Let_def)

lemma resolve_link_step: "resolve db (link_step h a r) = resolve db h"
  by (rule resolve_cong) (simp add: link_step_simps)

lemma link_resolved:
  "link db as h = (None, h') \<Longrightarrow> a \<in> set as \<Longrightarrow>
   resolve db h a \<noteq> None \<and> neo (ca_at h' a) = resolve db h a"
proof (induction as arbitrary: h)
  case Nil
  then show ?case by simp
next
  case (Cons x as)
  from Cons.prems(1) obtain r where r: "resolve db h x = Some r"
    and rest: "link db as (link_step h x r) = (None, h')"
    by (auto simp: link_Cons split: option.splits if_splits)
  show ?case
  proof (cases "a \<in> set as")
    case True
    from Cons.IH [OF rest True] show ?thesis by (simp add: resolve_link_step)
  next
    case False
    with Cons.prems(2) have ax: "a = x" by simp
    from link_frame_ca [OF rest False] have "ca_at h' a = ca_at (link_step h x r) a" .
    then show ?thesis using r ax by (simp add: link_step_simps)
  qed
qed

lemma link_approaches:
  "link db as h = (None, h') \<Longrightarrow>
   approaches (neo_at h' r) =
     approaches (neo_at h r) @ filter (\<lambda>a. resolve db h a = Some r) as"
proof (induction as arbitrary: h)
  case Nil
  then show ?case by simp
next
  case (Cons x as)
  from Cons.prems obtain t where t: "resolve db h x = Some t"
    and rest: "link db as (link_step h x t) = (None, h')"
    by (auto simp: link_Cons split: option.splits if_splits)
  have "approaches (neo_at h' r) =
      approaches (neo_at (link_step h x t) r) @ filter (\<lambda>a. resolve db h a = Some r) as"
    using Cons.IH [OF rest] by (simp add: resolve_link_step)
  then show ?case using t by (cases "r = t") (simp_all add: link_step_simps)
qed

lemma link_unresolved:
  "a \<in> set as \<Longrightarrow> resolve db h a = None \<Longrightarrow> fst (link db as h) \<noteq> None"
proof (induction as arbitrary: h)
  case Nil
  then show ?case by simp
next
  case (Cons x as)
  show ?case
  proof (cases "resolve db h x")
    case None
    then show ?thesis by (simp add: link_Cons)
  next
    case (Some r)
    with Cons.prems have "a \<in> set as" by auto
    moreover have "resolve db (link_step h x r) a = None"
      using Cons.prems(2) by (simp add: resolve_link_step)
    ultimately show ?thesis using Cons.IH Some by (simp add: link_Cons)
  qed
qed

lemma link_error_KeyError:
  "(\<And>d i. neosByDes db d = Some i \<Longrightarrow> i < length (db_neos db)) \<Longrightarrow>
   fst (link db as h) = Some e \<Longrightarrow> e = KeyError"
proof (induction as arbitrary: h)
  case Nil
  then show ?case by simp
next
  case (Cons x as)
  show ?case
  proof (cases "resolve db h x")
    case None
    have "\<not> (\<exists>d i. ca_designation (ca_at h x) = Some d \<and> neosByDes db d = Some i)"
      using None Cons.prems(1) by (auto simp: resolve_def split: option.splits if_splits)
    then show ?thesis using None Cons.prems(2) by (auto simp: link_Cons split: if_splits)
  next
    case (Some r)
    then show ?thesis using Cons.IH [of "link_step h x r"] Cons.prems by (simp add: link_Cons)
  qed
qed

lemma count_list_filter:
  "count_list (filter P xs) a = (if P a then count_list xs a else 0)"
  by (induction xs) auto

lemma count_list_distinct:
  "distinct xs \<Longrightarrow> a \<in> set xs \<Longrightarrow> count_list xs a = 1"
  by (induction xs) auto

subsection \<open>query\<close>

lemma query_list_Nil:
  "query_list h \<lparr>gen_filters = f, pending = []\<rparr> = ([], None)"
  by (simp add: query_list.simps [of h "\<lparr>gen_filters = f, pending = []\<rparr>"] query_next_def)

lemma query_list_Cons:
  "query_list h \<lparr>gen_filters = f, pending = a # rest\<rparr> =
     (case call_filters h f a of
        Inl e \<Rightarrow> ([], Some e)
      | Inr b \<Rightarrow>
          if b then (case query_list h \<lparr>gen_filters = f, pending = rest\<rparr> of
                       (ys, e) \<Rightarrow> (a # ys, e))
          else query_list h \<lparr>gen_filters = f, pending = rest\<rparr>)"
  by (simp add: query_list.simps [of h "\<lparr>gen_filters = f, pending = a # rest\<rparr>"]
      query_list.simps [of h "\<lparr>gen_filters = f, pending = rest\<rparr>"] query_next_def
      split: sum.splits)

lemma query_list_total:
  "(\<And>a. a \<in> set xs \<Longrightarrow> p h a = Inr (q a)) \<Longrightarrow>
   query_list h \<lparr>gen_filters = Callable p, pending = xs\<rparr> = (filter q xs, None)"
  by (induction xs) (simp_all add: query_list_Nil query_list_Cons)

lemma query_loop_total:
  "(\<And>a. a \<in> set xs \<Longrightarrow> p h a = Inr (q a)) \<Longrightarrow>
   query_loop h (Callable p) xs =
     (case dropWhile (\<lambda>a. \<not> q a) xs of
        [] \<Rightarrow> StopIteration
      | a # rest \<Rightarrow> Yield a \<lparr>gen_filters = Callable p, pending = rest\<rparr>)"
  by (induction xs) simp_all

text \<open>
  Claim C3.  For a boolean predicate \<open>p\<close>, consuming \<open>query(p)\<close> yields the approaches
  of the store's collection that satisfy \<open>p\<close>, in the collection's order, and nothing
  raises.  Every call of \<open>query\<close> starts a generator at the head of the collection,
  and one \<open>next()\<close> skips the approaches failing \<open>p\<close>, yields the first that
  satisfies it and leaves the others unvisited.
\<close>

theorem query_predicate:
  "query_list h (query db (Callable (\<lambda>h a. Inr (p h a)))) =
     (filter (p h) (db_approaches db), None) \<and>
   pending (query db (Callable (\<lambda>h a. Inr (p h a)))) = db_approaches db \<and>
   query_next h \<lparr>gen_filters = Callable (\<lambda>h a. Inr (p h a)), pending = xs\<rparr> =
     (case dropWhile (\<lambda>a. \<not> p h a) xs of
        [] \<Rightarrow> StopIteration
      | a # rest \<Rightarrow> Yield a \<lparr>gen_filters = Callable (\<lambda>h a. Inr (p h a)), pending = rest\<rparr>)"
  by (simp add: query_def query_next_def
      query_list_total [of _ "\<lambda>h a. Inr (p h a)" h "p h"]
      query_loop_total [of _ "\<lambda>h a. Inr (p h a)" h "p h"])

text \<open>
  A composite with no slot constrained is true on every approach, so a query with it
  yields the whole collection.
\<close>

lemma Filter_call_unconstrained:
  "Filter_call h (create_filters None None None None None None None None None None) a = Inr True"
  by (simp add: Filter_call_def vars_def create_filters_def)

lemma query_unconstrained:
  "query_list h
     (query db (Callable (\<lambda>h a.
        Filter_call h (create_filters None None None None None None None None None None) a))) =
   (db_approaches db, None)"
  unfolding query_def
  using query_list_total [of "db_approaches db" _ h "\<lambda>a. True"]
  by (simp add: Filter_call_unconstrained)

text \<open>
  Claim C1 says that \<open>query()\<close> without a predicate yields every approach.  The default
  of \<open>filters\<close> is the empty tuple, which the loop calls: on a store with at least one
  approach the first \<open>next()\<close> raises \<open>TypeError\<close> and nothing is yielded.
\<close>

theorem query_default_raises:
  "db_approaches db \<noteq> [] \<Longrightarrow> query_list h (query db empty_tuple) = ([], Some TypeError)"
  by (cases "db_approaches db") (simp_all add: query_def query_list_Cons)

theorem query_default_raises_witness:
  "\<exists>db h'. NEODatabase_init example_heap [0] [0, 1, 3] = (Inr db, h') \<and>
     db_approaches db \<noteq> [] \<and>
     query_list h' (query db empty_tuple) = ([], Some TypeError)"
proof -
  obtain db h' where init: "NEODatabase_init example_heap [0] [0, 1, 3] = (Inr db, h')"
    and db: "db_approaches db = [0, 1, 3]"
    using example_init by blast
  have ne: "db_approaches db \<noteq> []" by (simp add: db)
  from query_default_raises [OF ne, of h'] init ne show ?thesis by blast
qed

subsection \<open>The store\<close>

lemma init_link:
  assumes "NEODatabase_init h neos apps = (Inr db, h')"
  shows "db = \<lparr>db_neos = neos, db_approaches = apps,
                neosByDes = index_by designation h neos,
                neosByName = index_by name h neos\<rparr>"
    and "link db apps h = (None, h')"
  using assms by (auto simp: NEODatabase_init_def Let_def split: prod.splits option.splits)

text \<open>
  Claim C2, as the code has it.  The constructor is given objects whose \<open>approaches\<close>
  are empty.  When it returns a store, then for every object \<open>obj\<close> of the store: every
  approach in \<open>obj.approaches\<close> has \<open>neo\<close> equal to \<open>obj\<close>; every approach of the store
  whose \<open>neo\<close> is \<open>obj\<close> occurs in \<open>obj.approaches\<close> as many times as in the input
  collection, so exactly once when the input collection holds no approach twice; and
  \<open>obj.approaches\<close> lists those approaches in the order of the input collection.
\<close>

theorem linked_store:
  assumes init: "NEODatabase_init h neos apps = (Inr db, h')"
    and unlinked: "\<forall>r\<in>set neos. approaches (neo_at h r) = []"
  shows "\<forall>obj\<in>set (db_neos db).
           (\<forall>a\<in>set (approaches (neo_at h' obj)). neo (ca_at h' a) = Some obj) \<and>
           (\<forall>a\<in>set (db_approaches db).
              neo (ca_at h' a) = Some obj \<longrightarrow>
                count_list (approaches (neo_at h' obj)) a = count_list (db_approaches db) a) \<and>
           (distinct (db_approaches db) \<longrightarrow>
              (\<forall>a\<in>set (db_approaches db).
                 neo (ca_at h' a) = Some obj \<longrightarrow> count_list (approaches (neo_at h' obj)) a = 1)) \<and>
           approaches (neo_at h' obj) =
             filter (\<lambda>a. neo (ca_at h' a) = Some obj) (db_approaches db)"
proof
  fix obj
  assume obj: "obj \<in> set (db_neos db)"
  from init_link [OF init] have db: "db_neos db = neos" "db_approaches db = apps"
    and lnk: "link db apps h = (None, h')" by simp_all
  have same: "neo (ca_at h' a) = resolve db h a" if "a \<in> set apps" for a
    using link_resolved [OF lnk that] by simp
  have "approaches (neo_at h' obj) = filter (\<lambda>a. resolve db h a = Some obj) apps"
    using link_approaches [OF lnk, of obj] unlinked obj db by simp
  also have "\<dots> = filter (\<lambda>a. neo (ca_at h' a) = Some obj) apps"
    by (rule filter_cong) (simp_all add: same)
  finally have eq: "approaches (neo_at h' obj) = filter (\<lambda>a. neo (ca_at h' a) = Some obj) apps" .
  have cnt: "count_list (approaches (neo_at h' obj)) a = count_list apps a"
    if "neo (ca_at h' a) = Some obj" for a
    unfolding eq using that by (simp add: count_list_filter)
  have once: "count_list (approaches (neo_at h' obj)) a = 1"
    if "distinct apps" "a \<in> set apps" "neo (ca_at h' a) = Some obj" for a
    using cnt [OF that(3)] count_list_distinct [OF that(1, 2)] by simp
  show "(\<forall>a\<in>set (approaches (neo_at h' obj)). neo (ca_at h' a) = Some obj) \<and>
        (\<forall>a\<in>set (db_approaches db).
           neo (ca_at h' a) = Some obj \<longrightarrow>
             count_list (approaches (neo_at h' obj)) a = count_list (db_approaches db) a) \<and>
        (distinct (db_approaches db) \<longrightarrow>
           (\<forall>a\<in>set (db_approaches db).
              neo (ca_at h' a) = Some obj \<longrightarrow> count_list (approaches (neo_at h' obj)) a = 1)) \<and>
        approaches (neo_at h' obj) = filter (\<lambda>a. neo (ca_at h' a) = Some obj) (db_approaches db)"
    using eq cnt once by (auto simp: db)
qed

theorem linked_store_witness:
  "(\<exists>db h'. NEODatabase_init two_object_heap [0, 1] [0, 2, 1, 3] = (Inr db, h') \<and>
      approaches (neo_at two_object_heap 0) = [] \<and>
      approaches (neo_at two_object_heap 1) = [] \<and>
      distinct (db_approaches db) \<and>
      approaches (neo_at h' 0) = [0, 1, 3] \<and> approaches (neo_at h' 1) = [2] \<and>
      neo (ca_at h' 0) = Some 0 \<and> neo (ca_at h' 1) = Some 0 \<and>
      neo (ca_at h' 2) = Some 1 \<and> neo (ca_at h' 3) = Some 0 \<and>
      count_list (approaches (neo_at h' 0)) 3 = 1 \<and>
      count_list (approaches (neo_at h' 1)) 2 = 1 \<and>
      approaches (neo_at h' 0) = filter (\<lambda>a. neo (ca_at h' a) = Some 0) (db_approaches db) \<and>
      approaches (neo_at h' 1) = filter (\<lambda>a. neo (ca_at h' a) = Some 1) (db_approaches db)) \<and>
   (\<exists>db h'. NEODatabase_init example_heap [0] [0, 0] = (Inr db, h') \<and>
      neo (ca_at h' 0) = Some 0 \<and>
      count_list (db_approaches db) 0 = 2 \<and>
      count_list (approaches (neo_at h' 0)) 0 = count_list (db_approaches db) 0)"
proof -
  obtain db h' where init: "NEODatabase_init two_object_heap [0, 1] [0, 2, 1, 3] = (Inr db, h')"
    and db: "db_neos db = [0, 1]" "db_approaches db = [0, 2, 1, 3]"
    and vals: "approaches (neo_at h' 0) = [0, 1, 3]" "approaches (neo_at h' 1) = [2]"
      "neo (ca_at h' 0) = Some 0" "neo (ca_at h' 1) = Some 0"
      "neo (ca_at h' 2) = Some 1" "neo (ca_at h' 3) = Some 0"
    using two_object_init by blast
  have e0: "approaches (neo_at two_object_heap 0) = []"
    by (simp add: two_object_heap_def example_heap_def example_neo_def)
  have e1: "approaches (neo_at two_object_heap 1) = []"
    by (simp add: two_object_heap_def second_neo_def)
  have unlinked: "\<forall>r\<in>set [0, 1]. approaches (neo_at two_object_heap r) = []"
    using e0 e1 by simp
  note T = linked_store [OF init unlinked]
  have dist: "distinct (db_approaches db)" by (simp add: db)
  have m0: "0 \<in> set (db_neos db)" and m1: "1 \<in> set (db_neos db)"
    by (simp_all add: db)
  have a3: "3 \<in> set (db_approaches db)" and a2: "2 \<in> set (db_approaches db)"
    by (simp_all add: db)
  from T m0 dist a3 vals(6) have c0: "count_list (approaches (neo_at h' 0)) 3 = 1"
    by blast
  from T m1 dist a2 vals(5) have c1: "count_list (approaches (neo_at h' 1)) 2 = 1"
    by blast
  from T m0 have f0: "approaches (neo_at h' 0) =
      filter (\<lambda>a. neo (ca_at h' a) = Some 0) (db_approaches db)"
    by blast
  from T m1 have f1: "approaches (neo_at h' 1) =
      filter (\<lambda>a. neo (ca_at h' a) = Some 1) (db_approaches db)"
    by blast
  have first: "\<exists>db h'. NEODatabase_init two_object_heap [0, 1] [0, 2, 1, 3] = (Inr db, h') \<and>
      approaches (neo_at two_object_heap 0) = [] \<and>
      approaches (neo_at two_object_heap 1) = [] \<and>
      distinct (db_approaches db) \<and>
      approaches (neo_at h' 0) = [0, 1, 3] \<and> approaches (neo_at h' 1) = [2] \<and>
      neo (ca_at h' 0) = Some 0 \<and> neo (ca_at h' 1) = Some 0 \<and>
      neo (ca_at h' 2) = Some 1 \<and> neo (ca_at h' 3) = Some 0 \<and>
      count_list (approaches (neo_at h' 0)) 3 = 1 \<and>
      count_list (approaches (neo_at h' 1)) 2 = 1 \<and>
      approaches (neo_at h' 0) = filter (\<lambda>a. neo (ca_at h' a) = Some 0) (db_approaches db) \<and>
      approaches (neo_at h' 1) = filter (\<lambda>a. neo (ca_at h' a) = Some 1) (db_approaches db)"
    using init e0 e1 dist vals c0 c1 f0 f1 by blast
  obtain db2 h2 where init2: "NEODatabase_init example_heap [0] [0, 0] = (Inr db2, h2)"
    and db2: "db_neos db2 = [0]" "db_approaches db2 = [0, 0]"
    and n2: "neo (ca_at h2 0) = Some 0"
    using repeated_init by blast
  have unlinked2: "\<forall>r\<in>set [0]. approaches (neo_at example_heap r) = []"
    by (simp add: example_heap_def example_neo_def)
  note T2 = linked_store [OF init2 unlinked2]
  have "0 \<in> set (db_neos db2)" "0 \<in> set (db_approaches db2)"
    by (simp_all add: db2)
  with T2 n2 have c2: "count_list (approaches (neo_at h2 0)) 0 = count_list (db_approaches db2) 0"
    by blast
  have two: "count_list (db_approaches db2) 0 = 2" by (simp add: db2)
  from init2 n2 two c2
  have second: "\<exists>db h'. NEODatabase_init example_heap [0] [0, 0] = (Inr db, h') \<and>
      neo (ca_at h' 0) = Some 0 \<and>
      count_list (db_approaches db) 0 = 2 \<and>
      count_list (approaches (neo_at h' 0)) 0 = count_list (db_approaches db) 0"
    by blast
  from first second show ?thesis by (rule conjI)
qed

text \<open>
  An input collection that holds the same approach twice: the constructor appends it
  twice to the approaches of its object.
\<close>

theorem repeated_approach_counterexample:
  "approaches (neo_at example_heap 0) = [] \<and> neo (ca_at example_heap 0) = None \<and>
   (\<exists>db h'. NEODatabase_init example_heap [0] [0, 0] = (Inr db, h') \<and>
      db_neos db = [0] \<and> db_approaches db = [0, 0] \<and>
      neo (ca_at h' 0) = Some 0 \<and>
      approaches (neo_at h' 0) = [0, 0] \<and>
      count_list (approaches (neo_at h' 0)) 0 = 2)"
  by (simp add: NEODatabase_init_def index_by_def link.simps
      example_heap_def example_neo_def example_approach_def Let_def)

text \<open>
  Claim C4.  If the designation of some approach is not a key of the designation index
  (or is \<open>None\<close>), the constructor raises \<open>KeyError\<close>: no store is returned, so the
  approach is not skipped and nothing can be queried.
\<close>

theorem unresolved_key_fatal:
  assumes "a \<in> set apps"
    and "\<forall>d. ca_designation (ca_at h a) = Some d \<longrightarrow> index_by designation h neos d = None"
  shows "fst (NEODatabase_init h neos apps) = Inl KeyError"
proof -
  let ?db = "\<lparr>db_neos = neos, db_approaches = apps,
                neosByDes = index_by designation h neos,
                neosByName = index_by name h neos\<rparr>"
  have "resolve ?db h a = None"
    using assms(2) by (auto simp: resolve_def split: option.splits)
  from link_unresolved [OF assms(1) this] obtain e where e: "fst (link ?db apps h) = Some e"
    by auto
  have "e = KeyError"
    by (rule link_error_KeyError [OF _ e]) (auto dest: index_by_Some)
  with e show ?thesis
    by (auto simp: NEODatabase_init_def Let_def split: prod.splits option.splits)
qed

theorem unresolved_key_fatal_witness:
  "(2 :: nat) \<in> set [0, 2, 1] \<and>
   ca_designation (ca_at example_heap 2) = Some ''B2'' \<and>
   index_by designation example_heap [0] ''B2'' = None \<and>
   fst (NEODatabase_init example_heap [0] [0, 2, 1]) = Inl KeyError"
proof -
  have a: "(2 :: nat) \<in> set [0, 2, 1]" by simp
  have d: "ca_designation (ca_at example_heap 2) = Some ''B2''"
    by (simp add: example_heap_def)
  have i: "index_by designation example_heap [0] ''B2'' = None"
    by (simp add: index_by_def example_heap_def example_neo_def)
  have "\<forall>d. ca_designation (ca_at example_heap 2) = Some d \<longrightarrow>
          index_by designation example_heap [0] d = None"
    by (simp add: d i)
  from unresolved_key_fatal [OF a this] a d i show ?thesis by blast
qed

text \<open>
  Claim C6, as the code has it.  The designation index holds exactly the designations
  that are not \<open>None\<close>, the empty string among them when an object has it; every entry
  points at an object with that designation; and \<open>get_neo_by_designation d\<close> returns
  \<open>None\<close> exactly when no object of the store has the designation \<open>d\<close>, and otherwise
  an object of the store whose designation is \<open>d\<close>.
\<close>

theorem designation_index:
  assumes init: "NEODatabase_init h neos apps = (Inr db, h')"
  shows "dom (neosByDes db) = {d. \<exists>r\<in>set (db_neos db). designation (neo_at h' r) = Some d} \<and>
         (\<forall>d i. neosByDes db d = Some i \<longrightarrow>
            i < length (db_neos db) \<and> designation (neo_at h' (db_neos db ! i)) = Some d) \<and>
         (get_neo_by_designation db (Some d) = None \<longleftrightarrow>
            (\<forall>r\<in>set (db_neos db). designation (neo_at h' r) \<noteq> Some d)) \<and>
         (\<forall>r. get_neo_by_designation db (Some d) = Some r \<longrightarrow>
            r \<in> set (db_neos db) \<and> designation (neo_at h' r) = Some d)"
proof -
  from init_link [OF init] have db: "db_neos db = neos"
    "neosByDes db = index_by designation h neos"
    and lnk: "link db apps h = (None, h')" by simp_all
  have des: "designation (neo_at h' r) = designation (neo_at h r)" for r
    by (rule link_designation [OF lnk])
  have dom: "dom (neosByDes db) = {d. \<exists>r\<in>set (db_neos db). designation (neo_at h' r) = Some d}"
    by (simp add: db index_by_dom des)
  have wf: "i < length (db_neos db) \<and> designation (neo_at h' (db_neos db ! i)) = Some d"
    if "neosByDes db d = Some i" for d i
    using index_by_Some [of designation h neos d i] that by (simp add: db des)
  have "get_neo_by_designation db (Some d) = None \<longleftrightarrow> d \<notin> dom (neosByDes db)"
    using wf [of d] by (auto simp: get_neo_by_designation_def split: option.splits)
  also have "\<dots> \<longleftrightarrow> (\<forall>r\<in>set (db_neos db). designation (neo_at h' r) \<noteq> Some d)"
    unfolding dom by simp
  finally have miss: "get_neo_by_designation db (Some d) = None \<longleftrightarrow>
      (\<forall>r\<in>set (db_neos db). designation (neo_at h' r) \<noteq> Some d)" .
  have hit: "r \<in> set (db_neos db) \<and> designation (neo_at h' r) = Some d"
    if "get_neo_by_designation db (Some d) = Some r" for r
    using that wf [of d]
    by (auto simp: get_neo_by_designation_def split: option.splits if_splits)
  from dom wf miss hit show ?thesis by blast
qed

theorem designation_index_witness:
  "\<exists>db h'. NEODatabase_init example_heap [0] [0, 1, 3] = (Inr db, h') \<and>
     dom (neosByDes db) = {''A1''} \<and> neosByDes db ''A1'' = Some 0 \<and>
     get_neo_by_designation db (Some ''A1'') = Some 0 \<and>
     get_neo_by_designation db (Some '''') = None"
proof -
  obtain db h' where init: "NEODatabase_init example_heap [0] [0, 1, 3] = (Inr db, h')"
    and db: "db_neos db = [0]"
    and des: "designation (neo_at h' 0) = Some ''A1''"
    and by_des: "neosByDes db ''A1'' = Some 0"
    using example_init by blast
  note idx = designation_index [OF init, of "''''"]
  have dom: "dom (neosByDes db) = {''A1''}"
    using idx by (simp add: db des)
  have miss: "get_neo_by_designation db (Some '''') = None"
    using idx by (simp add: db des)
  have hit: "get_neo_by_designation db (Some ''A1'') = Some 0"
    by (simp add: get_neo_by_designation_def by_des db)
  from init dom by_des hit miss show ?thesis by blast
qed

text \<open>
  An object built from a row whose \<open>pdes\<close> field is the empty string keeps the empty
  string as its designation; the store indexes it, and looking the empty string up
  returns that object.
\<close>

theorem empty_designation_indexed_counterexample:
  "NearEarthObject_init Fin no_unicode [''pdes'' \<mapsto> PyStr ''''] = Inr unnamed_neo \<and>
   (\<exists>db h'. NEODatabase_init \<lparr>neo_at = (\<lambda>r. unnamed_neo), ca_at = (\<lambda>a. example_approach)\<rparr> [0] []
              = (Inr db, h') \<and>
            designation (neo_at h' 0) = Some '''' \<and>
            neosByDes db '''' = Some 0 \<and>
            get_neo_by_designation db (Some '''') = Some 0)"
  by (simp add: NearEarthObject_init_def unnamed_neo_def float_defs NEODatabase_init_def
      index_by_def get_neo_by_designation_def)

section \<open>Unknown distances\<close>

lemma float_le_refl: "x \<noteq> NaN \<Longrightarrow> float_le x x"
  by (cases x) simp_all

lemma Filter_call_distance_max:
  "Filter_call h (create_filters None None None None (Some X) None None None None None) a =
     Inr (float_le (distance (ca_at h a)) X)"
  by (simp add: Filter_call_def vars_def create_filters_def slot_distance)

text \<open>
  Claim C8.  On an approach whose distance is not-a-number, a distance filter is false
  under each of \<open>operator.le\<close>, \<open>operator.ge\<close> and \<open>operator.eq\<close>, whatever the reference
  value \<open>X\<close>.  A composite constrained by \<open>distance_max = X\<close> alone is true exactly on
  the approaches with \<open>distance \<le> X\<close>: false on an unknown distance, true on a distance
  equal to \<open>X\<close>; and a query with it yields exactly those approaches of the store.
\<close>

theorem nan_distance_never_matches:
  "(distance (ca_at h a) = NaN \<longrightarrow>
      AttributeFilter_call h \<lparr>cls = DistanceFilter, op = c, ref_value = Some (VFloat X)\<rparr> a =
        Inr False) \<and>
   Filter_call h (create_filters None None None None (Some X) None None None None None) a =
     Inr (float_le (distance (ca_at h a)) X) \<and>
   (distance (ca_at h a) = NaN \<longrightarrow>
      Filter_call h (create_filters None None None None (Some X) None None None None None) a =
        Inr False) \<and>
   (distance (ca_at h a) = X \<and> X \<noteq> NaN \<longrightarrow>
      Filter_call h (create_filters None None None None (Some X) None None None None None) a =
        Inr True) \<and>
   query_list h
     (query db (Callable (\<lambda>h a.
        Filter_call h (create_filters None None None None (Some X) None None None None None) a))) =
     (filter (\<lambda>a. float_le (distance (ca_at h a)) X) (db_approaches db), None)"
proof -
  have "AttributeFilter_call h \<lparr>cls = DistanceFilter, op = c, ref_value = Some (VFloat X)\<rparr> a =
      Inr False" if "distance (ca_at h a) = NaN"
    using that by (cases c) (simp_all add: slot_distance float_eq_def float_ge_def)
  moreover have "query_list h
     (query db (Callable (\<lambda>h a.
        Filter_call h (create_filters None None None None (Some X) None None None None None) a))) =
     (filter (\<lambda>a. float_le (distance (ca_at h a)) X) (db_approaches db), None)"
    unfolding query_def by (rule query_list_total) (rule Filter_call_distance_max)
  ultimately show ?thesis
    by (simp add: Filter_call_distance_max float_le_refl)
qed

theorem nan_distance_never_matches_witness:
  "\<exists>db h'. NEODatabase_init example_heap [0] [0, 1, 3] = (Inr db, h') \<and>
     distance (ca_at h' 3) = NaN \<and>
     AttributeFilter_call h'
       \<lparr>cls = DistanceFilter, op = op_le, ref_value = Some (VFloat (Fin (1 / 2)))\<rparr> 3 = Inr False \<and>
     Filter_call h'
       (create_filters None None None None (Some (Fin (1 / 2))) None None None None None) 3 =
       Inr False \<and>
     distance (ca_at h' 1) = Fin (1 / 2) \<and> Fin (1 / 2) \<noteq> NaN \<and>
     Filter_call h'
       (create_filters None None None None (Some (Fin (1 / 2))) None None None None None) 1 =
       Inr True \<and>
     query_list h'
       (query db (Callable (\<lambda>h a.
          Filter_call h
            (create_filters None None None None (Some (Fin (1 / 2))) None None None None None) a))) =
       ([0, 1], None)"
proof -
  obtain db h' where init: "NEODatabase_init example_heap [0] [0, 1, 3] = (Inr db, h')"
    and db: "db_approaches db = [0, 1, 3]"
    and vals: "distance (ca_at h' 0) = Fin (1 / 2)" "distance (ca_at h' 1) = Fin (1 / 2)"
      "distance (ca_at h' 3) = NaN"
    using example_init by blast
  note n3 = nan_distance_never_matches [of h' 3 op_le "Fin (1 / 2)" db]
  note n1 = nan_distance_never_matches [of h' 1 op_le "Fin (1 / 2)" db]
  have a: "AttributeFilter_call h'
       \<lparr>cls = DistanceFilter, op = op_le, ref_value = Some (VFloat (Fin (1 / 2)))\<rparr> 3 = Inr False"
    using n3 vals by blast
  have b: "Filter_call h'
       (create_filters None None None None (Some (Fin (1 / 2))) None None None None None) 3 =
       Inr False"
    using n3 vals by blast
  have c: "Filter_call h'
       (create_filters None None None None (Some (Fin (1 / 2))) None None None None None) 1 =
       Inr True"
    using n1 vals by simp
  have q: "query_list h'
       (query db (Callable (\<lambda>h a.
          Filter_call h
            (create_filters None None None None (Some (Fin (1 / 2))) None None None None None) a))) =
       ([0, 1], None)"
  proof -
    from n1 have "query_list h'
       (query db (Callable (\<lambda>h a.
          Filter_call h
            (create_filters None None None None (Some (Fin (1 / 2))) None None None None None) a))) =
       (filter (\<lambda>a. float_le (distance (ca_at h' a)) (Fin (1 / 2))) (db_approaches db), None)"
      by blast
    then show ?thesis by (simp add: db vals del: One_nat_def)
  qed
  have ne: "Fin (1 / 2) \<noteq> NaN" by simp
  from init vals(3) a b vals(2) ne c q show ?thesis by blast
qed

section \<open>Decoding numeric fields\<close>




end
